theory Spec2Isabelle
  imports Main "HOL-Library.Sublist" "HOL-Library.AList" "HOL-Library.Word"
begin

section \<open>Errors and the remote management API\<close>

text \<open>
  A Go \<open>error\<close> returned by the management client is either a \<open>management.Error\<close>,
  which carries an HTTP status, or some other error value (network failure and the like).
  The handlers tell the two apart with
  \<^verbatim>\<open>mErr, ok := err.(management.Error); ok && mErr.Status() == http.StatusNotFound\<close>.
\<close>

datatype error =
    ManagementError nat string
  | OtherError string

definition StatusNotFound :: nat where
  "StatusNotFound = 404"

fun isNotFound :: "error \<Rightarrow> bool" where
  "isNotFound (ManagementError status msg) = (status = StatusNotFound)"
| "isNotFound (OtherError msg) = False"

text \<open>
  \<open>management.Connection\<close>: every field is a pointer, so every field is optional.
  The getters return the zero value for a nil field. A nil slice and an empty slice are
  both the empty list.
\<close>

record Connection =
  conn_ID :: "string option"
  conn_Name :: "string option"
  conn_Strategy :: "string option"
  conn_EnabledClients :: "string list option"

definition GetID :: "Connection \<Rightarrow> string" where
  "GetID c = (case conn_ID c of None \<Rightarrow> [] | Some v \<Rightarrow> v)"

definition GetName :: "Connection \<Rightarrow> string" where
  "GetName c = (case conn_Name c of None \<Rightarrow> [] | Some v \<Rightarrow> v)"

definition GetStrategy :: "Connection \<Rightarrow> string" where
  "GetStrategy c = (case conn_Strategy c of None \<Rightarrow> [] | Some v \<Rightarrow> v)"

definition GetEnabledClients :: "Connection \<Rightarrow> string list" where
  "GetEnabledClients c = (case conn_EnabledClients c of None \<Rightarrow> [] | Some v \<Rightarrow> v)"

text \<open>The composite literal \<^verbatim>\<open>&management.Connection{EnabledClients: &enabledClients}\<close>.\<close>

definition EnabledClientsOnly :: "string list \<Rightarrow> Connection" where
  "EnabledClientsOnly enabledClients =
     \<lparr>conn_ID = None, conn_Name = None, conn_Strategy = None,
      conn_EnabledClients = Some enabledClients\<rparr>"

text \<open>
  \<open>management.ConnectionList\<close> with the paging fields of the embedded \<open>management.List\<close>;
  \<open>HasNext\<close> is that library's \<^verbatim>\<open>l.Total > l.Start+l.Limit\<close>.
\<close>

record ConnectionList =
  list_Start :: nat
  list_Limit :: nat
  list_Total :: nat
  list_Connections :: "Connection list"

definition HasNext :: "ConnectionList \<Rightarrow> bool" where
  "HasNext l = (list_Total l > list_Start l + list_Limit l)"

text \<open>
  The management client \<open>api.Connection\<close> is an external collaborator. It is a parameter
  of the model: four operations over a remote state \<open>'r\<close> that the handlers never
  inspect. Each call returns its result together with the remote state it leaves behind.
\<close>

record 'r Management =
  api_Read :: "string \<Rightarrow> 'r \<Rightarrow> (error + Connection) \<times> 'r"
  api_Update :: "string \<Rightarrow> Connection \<Rightarrow> 'r \<Rightarrow> error option \<times> 'r"
  api_List :: "nat \<Rightarrow> 'r \<Rightarrow> (error + ConnectionList) \<times> 'r"
  api_Delete :: "string \<Rightarrow> 'r \<Rightarrow> error option \<times> 'r"

text \<open>
  The world a handler runs in: the remote state and the sequence of calls made so far to
  the management client and to the keyed mutex \<open>mutex.Global\<close>. The mutex calls are
  recorded in program order; blocking between threads is outside this sequential model.
  A list call and a delete call are recorded with the answer they got.
\<close>

datatype event =
    MutexLock string
  | MutexUnlock string
  | ConnectionRead string
  | ConnectionUpdate string Connection
  | ConnectionListed nat "error + ConnectionList"
  | ConnectionDeleted string "error option"

record 'r world =
  remote :: 'r
  trace :: "event list"

definition emit :: "event \<Rightarrow> 'r world \<Rightarrow> 'r world" where
  "emit e w = w\<lparr>trace := trace w @ [e]\<rparr>"

text \<open>
  Modelled from the spec: the keyed mutex of \<open>internal/mutex\<close>, which is not among the
  sources. Section 4.1 gives it two operations on a key, \<open>Lock\<close> and \<open>Unlock\<close>. Each
  call is recorded in the trace.
\<close>

definition Lock :: "string \<Rightarrow> 'r world \<Rightarrow> 'r world" where
  "Lock key w = emit (MutexLock key) w"

definition Unlock :: "string \<Rightarrow> 'r world \<Rightarrow> 'r world" where
  "Unlock key w = emit (MutexUnlock key) w"

definition Connection_Read ::
  "'r Management \<Rightarrow> string \<Rightarrow> 'r world \<Rightarrow> (error + Connection) \<times> 'r world" where
  "Connection_Read api ident w =
     (case api_Read api ident (remote w) of
        (res, r') \<Rightarrow> (res, emit (ConnectionRead ident) (w\<lparr>remote := r'\<rparr>)))"

definition Connection_Update ::
  "'r Management \<Rightarrow> string \<Rightarrow> Connection \<Rightarrow> 'r world \<Rightarrow> error option \<times> 'r world" where
  "Connection_Update api ident c w =
     (case api_Update api ident c (remote w) of
        (res, r') \<Rightarrow> (res, emit (ConnectionUpdate ident c) (w\<lparr>remote := r'\<rparr>)))"

definition Connection_List ::
  "'r Management \<Rightarrow> nat \<Rightarrow> 'r world \<Rightarrow> (error + ConnectionList) \<times> 'r world" where
  "Connection_List api page w =
     (case api_List api page (remote w) of
        (res, r') \<Rightarrow> (res, emit (ConnectionListed page res) (w\<lparr>remote := r'\<rparr>)))"

definition Connection_Delete ::
  "'r Management \<Rightarrow> string \<Rightarrow> 'r world \<Rightarrow> error option \<times> 'r world" where
  "Connection_Delete api ident w =
     (case api_Delete api ident (remote w) of
        (res, r') \<Rightarrow> (res, emit (ConnectionDeleted ident res) (w\<lparr>remote := r'\<rparr>)))"

section \<open>The connection-client resource\<close>

text \<open>
  \<open>schema.ResourceData\<close> of an \<open>auth0_connection_client\<close>: the two required
  attributes, the two computed ones and the resource ID. \<open>SetId("")\<close> marks the resource
  as gone. Setting a string attribute to a string does not fail, so \<open>data.Set\<close> is a
  field update and the \<open>multierror\<close> built from its two results is nil.
\<close>

record ResourceData =
  d_Id :: string
  d_connection_id :: string
  d_client_id :: string
  d_name :: string
  d_strategy :: string

definition SetId :: "string \<Rightarrow> ResourceData \<Rightarrow> ResourceData" where
  "SetId v data = data\<lparr>d_Id := v\<rparr>"

text \<open>The scan \<^verbatim>\<open>for _, enabledClientID := range ... { if enabledClientID == clientID { found = true } }\<close>.\<close>

definition scanFound :: "string \<Rightarrow> string list \<Rightarrow> bool" where
  "scanFound clientID enabledClients =
     foldl (\<lambda>found enabledClientID. if enabledClientID = clientID then True else found)
       False enabledClients"

definition readConnectionClient ::
  "'r Management \<Rightarrow> ResourceData \<Rightarrow> 'r world \<Rightarrow> error option \<times> ResourceData \<times> 'r world" where
  "readConnectionClient api data w =
     (let connectionID = d_connection_id data;
          clientID = d_client_id data
      in case Connection_Read api connectionID w of
           (Inl err, w1) \<Rightarrow>
             if isNotFound err then (None, SetId [] data, w1)
             else (Some err, data, w1)
         | (Inr connection, w1) \<Rightarrow>
             if \<not> scanFound clientID (GetEnabledClients connection)
             then (None, SetId [] data, w1)
             else (None,
                   data\<lparr>d_name := GetName connection, d_strategy := GetStrategy connection\<rparr>,
                   w1))"

text \<open>
  \<open>createConnectionClient\<close>. The unlock is deferred, so it runs on every return path,
  after the returned expression (on the last path the call of \<open>readConnectionClient\<close>)
  has been evaluated. \<open>uid\<close> stands for the value of \<open>resource.UniqueId()\<close>.
\<close>

definition createConnectionClient ::
  "'r Management \<Rightarrow> string \<Rightarrow> ResourceData \<Rightarrow> 'r world
     \<Rightarrow> error option \<times> ResourceData \<times> 'r world" where
  "createConnectionClient api uid data w =
     (let connectionID = d_connection_id data;
          w0 = Lock connectionID w;
          (diags, data', w') =
            (case Connection_Read api connectionID w0 of
               (Inl err, w1) \<Rightarrow> (Some err, data, w1)
             | (Inr connection, w1) \<Rightarrow>
                 (let clientID = d_client_id data;
                      enabledClients = GetEnabledClients connection @ [clientID]
                  in case Connection_Update api connectionID
                            (EnabledClientsOnly enabledClients) w1 of
                       (Some err, w2) \<Rightarrow> (Some err, data, w2)
                     | (None, w2) \<Rightarrow> readConnectionClient api (SetId uid data) w2))
      in (diags, data', Unlock connectionID w'))"

text \<open>The filtering loop of \<open>deleteConnectionClient\<close>, starting from the nil slice.\<close>

definition withoutClient :: "string \<Rightarrow> string list \<Rightarrow> string list" where
  "withoutClient clientID xs =
     foldl (\<lambda>enabledClients enabledClientID.
              if enabledClientID = clientID then enabledClients
              else enabledClients @ [enabledClientID])
       [] xs"

definition deleteConnectionClient ::
  "'r Management \<Rightarrow> ResourceData \<Rightarrow> 'r world \<Rightarrow> error option \<times> ResourceData \<times> 'r world" where
  "deleteConnectionClient api data w =
     (let connectionID = d_connection_id data;
          w0 = Lock connectionID w;
          (diags, data', w') =
            (case Connection_Read api connectionID w0 of
               (Inl err, w1) \<Rightarrow>
                 if isNotFound err then (None, SetId [] data, w1)
                 else (Some err, data, w1)
             | (Inr connection, w1) \<Rightarrow>
                 (let clientID = d_client_id data;
                      enabledClients = withoutClient clientID (GetEnabledClients connection)
                  in case Connection_Update api connectionID
                            (EnabledClientsOnly enabledClients) w1 of
                       (Some err, w2) \<Rightarrow>
                         if isNotFound err then (None, SetId [] data, w2)
                         else (Some err, data, w2)
                     | (None, w2) \<Rightarrow> (None, SetId [] data, w2)))
      in (diags, data', Unlock connectionID w'))"


section \<open>The schema upgrade of the connection resource\<close>

text \<open>
  A Go \<open>interface{}\<close> value as it occurs in a decoded state: nil, a bool, a string, an
  int, a float64 (kept as its 64 bits; the code never inspects one), a slice of values,
  or a \<open>map[string]interface{}\<close>. A map is an association list: lookup is \<open>map_of\<close>,
  assignment is \<open>AList.update\<close>.
\<close>

datatype any =
    AnyNil
  | AnyBool bool
  | AnyString string
  | AnyInt int
  | AnyFloat64 "64 word"
  | AnyList "any list"
  | AnyMap "(string \<times> any) list"








section \<open>The connection sweeper\<close>

text \<open>
  The error a sweep returns is nil, the error of a list call, or a \<open>*multierror.Error\<close>
  holding the errors of the failed deletions. The accumulator \<open>result\<close> is a
  \<open>*multierror.Error\<close>, nil at the start. \<open>multierror.Append\<close> allocates it when it is
  nil and adds the error when that is not nil; \<open>ErrorOrNil\<close> is nil for a nil accumulator
  and for one without errors. The management client returns plain errors, so nothing is
  flattened.
\<close>

datatype go_error = Plain error | Multierror "error list"

definition multierror_Append :: "error list option \<Rightarrow> error option \<Rightarrow> error list option" where
  "multierror_Append result err =
     (let errs = (case result of None \<Rightarrow> [] | Some es \<Rightarrow> es)
      in case err of None \<Rightarrow> Some errs | Some e \<Rightarrow> Some (errs @ [e]))"

definition ErrorOrNil :: "error list option \<Rightarrow> go_error option" where
  "ErrorOrNil result =
     (case result of
        None \<Rightarrow> None
      | Some es \<Rightarrow> if es = [] then None else Some (Multierror es))"

text \<open>\<open>strings.Contains\<close>: the second string occurs in the first as a contiguous run.\<close>

definition Contains :: "string \<Rightarrow> string \<Rightarrow> bool" where
  "Contains s substr = sublist substr s"

text \<open>
  The inner loop over the connections of one page. The logging calls have no effect here.
\<close>

fun sweepPage ::
  "'r Management \<Rightarrow> Connection list \<Rightarrow> error list option \<Rightarrow> 'r world
     \<Rightarrow> error list option \<times> 'r world" where
  "sweepPage api [] result w = (result, w)"
| "sweepPage api (connection # rest) result w =
     (if Contains (GetName connection) ''Test''
      then (case Connection_Delete api (GetID connection) w of
              (err, w1) \<Rightarrow> sweepPage api rest (multierror_Append result err) w1)
      else sweepPage api rest result w)"

text \<open>
  The outer loop \<^verbatim>\<open>for { ... page++ }\<close> has no bound of its own, so it runs on fuel: one
  unit per page. \<open>OutOfFuel\<close> stands for a loop that is still running. The list call is
  made with the page number; the field selection it also passes is not modelled. The
  page counter is a natural number: the wrap-around of a Go \<open>int\<close> after \<open>2^63\<close> pages is
  left out.
\<close>

datatype 'a fueled = OutOfFuel | Done 'a

fun sweepLoop ::
  "'r Management \<Rightarrow> nat \<Rightarrow> nat \<Rightarrow> error list option \<Rightarrow> 'r world
     \<Rightarrow> go_error option fueled \<times> 'r world" where
  "sweepLoop api 0 page result w = (OutOfFuel, w)"
| "sweepLoop api (Suc fuel) page result w =
     (case Connection_List api page w of
        (Inl err, w1) \<Rightarrow> (Done (Some (Plain err)), w1)
      | (Inr connectionList, w1) \<Rightarrow>
          (case sweepPage api (list_Connections connectionList) result w1 of
             (result', w2) \<Rightarrow>
               if \<not> HasNext connectionList then (Done (ErrorOrNil result'), w2)
               else sweepLoop api fuel (page + 1) result' w2))"

text \<open>
  The sweeper function. \<open>auth0API()\<close> is not among the sources; its result is an argument.
\<close>

definition Connections_F ::
  "(error + 'r Management) \<Rightarrow> nat \<Rightarrow> 'r world \<Rightarrow> go_error option fueled \<times> 'r world" where
  "Connections_F auth0API fuel w =
     (case auth0API of
        Inl err \<Rightarrow> (Done (Some (Plain err)), w)
      | Inr api \<Rightarrow> sweepLoop api fuel 0 None w)"

section \<open>Reading a trace\<close>

text \<open>
  The calls recorded in a trace while the mutex for \<open>key\<close> is held, and those recorded
  while it is not. \<open>held\<close> says whether the key is held where the trace starts.
\<close>

fun calls_under_lock :: "string \<Rightarrow> bool \<Rightarrow> event list \<Rightarrow> event list" where
  "calls_under_lock key held [] = []"
| "calls_under_lock key held (e # es) =
     (if e = MutexLock key then calls_under_lock key True es
      else if e = MutexUnlock key then calls_under_lock key False es
      else if held then e # calls_under_lock key held es
      else calls_under_lock key held es)"

fun calls_outside_lock :: "string \<Rightarrow> bool \<Rightarrow> event list \<Rightarrow> event list" where
  "calls_outside_lock key held [] = []"
| "calls_outside_lock key held (e # es) =
     (if e = MutexLock key then calls_outside_lock key True es
      else if e = MutexUnlock key then calls_outside_lock key False es
      else if held then calls_outside_lock key held es
      else e # calls_outside_lock key held es)"

text \<open>
  The calls a sweep is meant to make. A round is the answer of one list call together
  with the answers of the delete calls that follow it. The connections to delete are
  those of the listing whose name contains \<open>Test\<close>, in the listing's order; a failed
  listing has none. A listing continues the sweep when it succeeded and reports a next
  page.
\<close>

definition targets :: "ConnectionList \<Rightarrow> string list" where
  "targets l = map GetID (filter (\<lambda>c. Contains (GetName c) ''Test'') (list_Connections l))"

definition ids_of :: "error + ConnectionList \<Rightarrow> string list" where
  "ids_of res = (case res of Inl e \<Rightarrow> [] | Inr l \<Rightarrow> targets l)"

definition continues :: "error + ConnectionList \<Rightarrow> bool" where
  "continues res = (case res of Inl e \<Rightarrow> False | Inr l \<Rightarrow> HasNext l)"

definition delete_calls :: "string list \<Rightarrow> error option list \<Rightarrow> event list" where
  "delete_calls idents answers = map (\<lambda>(ident, a). ConnectionDeleted ident a) (zip idents answers)"

definition page_calls :: "nat \<Rightarrow> (error + ConnectionList) \<times> error option list \<Rightarrow> event list" where
  "page_calls page round =
     ConnectionListed page (fst round) # delete_calls (ids_of (fst round)) (snd round)"

fun sweep_calls :: "nat \<Rightarrow> ((error + ConnectionList) \<times> error option list) list \<Rightarrow> event list" where
  "sweep_calls page [] = []"
| "sweep_calls page (round # rounds) = page_calls page round @ sweep_calls (Suc page) rounds"

text \<open>
  The errors among the answers of the delete calls, in order, and the error made of a list
  of errors: nil when there is none.
\<close>

definition errors_of :: "error option list \<Rightarrow> error list" where
  "errors_of answers = [e. Some e \<leftarrow> answers]"

definition combined :: "error list \<Rightarrow> go_error option" where
  "combined errs = (if errs = [] then None else Some (Multierror errs))"

text \<open>
  For the loop invariant: a round has one answer per connection to delete; the errors an
  accumulator holds; and what a run of the loop that started with the errors \<open>errs\<close>
  and ended as \<open>out\<close> says about its rounds.
\<close>

definition answered :: "(error + ConnectionList) \<times> error option list \<Rightarrow> bool" where
  "answered round = (length (snd round) = length (ids_of (fst round)))"

definition errs_of :: "error list option \<Rightarrow> error list" where
  "errs_of result = (case result of None \<Rightarrow> [] | Some es \<Rightarrow> es)"

definition loop_post ::
  "nat \<Rightarrow> error list \<Rightarrow> go_error option fueled
     \<Rightarrow> ((error + ConnectionList) \<times> error option list) list \<Rightarrow> bool" where
  "loop_post fuel errs out rounds =
     (case out of
        OutOfFuel \<Rightarrow> length rounds = fuel \<and> list_all (\<lambda>round. continues (fst round)) rounds
      | Done e \<Rightarrow>
          rounds \<noteq> [] \<and> list_all (\<lambda>round. continues (fst round)) (butlast rounds) \<and>
          (case fst (last rounds) of
             Inl err \<Rightarrow> e = Some (Plain err)
           | Inr l \<Rightarrow> \<not> HasNext l \<and>
                       e = combined (errs @ errors_of (concat (map snd rounds)))))"

section \<open>A remote system of record\<close>

text \<open>
  Modelled from the spec: the remote system of record behind the management client
  (sections 3 and 6: fetch by ID, replace the list attribute, a distinguishable not-found
  condition). It is one instance of the \<open>Management\<close> parameter: a table of connections
  by ID. A fetch of a missing ID answers 404; an update answers 404 for a missing ID and
  otherwise replaces the fields that the request carries.
\<close>

type_synonym store = "(string \<times> Connection) list"

definition notFound :: error where
  "notFound = ManagementError StatusNotFound ''Not Found''"

definition patch :: "Connection \<Rightarrow> Connection \<Rightarrow> Connection" where
  "patch old c =
     \<lparr>conn_ID = (case conn_ID c of None \<Rightarrow> conn_ID old | Some v \<Rightarrow> Some v),
      conn_Name = (case conn_Name c of None \<Rightarrow> conn_Name old | Some v \<Rightarrow> Some v),
      conn_Strategy = (case conn_Strategy c of None \<Rightarrow> conn_Strategy old | Some v \<Rightarrow> Some v),
      conn_EnabledClients =
        (case conn_EnabledClients c of None \<Rightarrow> conn_EnabledClients old | Some v \<Rightarrow> Some v)\<rparr>"

definition store_Read :: "string \<Rightarrow> store \<Rightarrow> (error + Connection) \<times> store" where
  "store_Read ident s =
     (case map_of s ident of None \<Rightarrow> (Inl notFound, s) | Some c \<Rightarrow> (Inr c, s))"

definition store_Update :: "string \<Rightarrow> Connection \<Rightarrow> store \<Rightarrow> error option \<times> store" where
  "store_Update ident c s =
     (case map_of s ident of
        None \<Rightarrow> (Some notFound, s)
      | Some old \<Rightarrow> (None, AList.update ident (patch old c) s))"

definition perPage :: nat where
  "perPage = 2"

definition store_List :: "nat \<Rightarrow> store \<Rightarrow> (error + ConnectionList) \<times> store" where
  "store_List page s =
     (Inr \<lparr>list_Start = page * perPage, list_Limit = perPage, list_Total = length s,
           list_Connections = take perPage (drop (page * perPage) (map snd s))\<rparr>, s)"

definition store_Delete :: "string \<Rightarrow> store \<Rightarrow> error option \<times> store" where
  "store_Delete ident s = (None, AList.delete ident s)"

definition store_api :: "store Management" where
  "store_api = \<lparr>api_Read = store_Read, api_Update = store_Update,
                api_List = store_List, api_Delete = store_Delete\<rparr>"

text \<open>The same remote behind a transport whose reads, or whose writes, fail with \<open>err\<close>.\<close>

definition failing_reads :: "error \<Rightarrow> store Management" where
  "failing_reads err =
     store_api\<lparr>api_Read := (\<lambda>ident s. (Inl err, s)), api_List := (\<lambda>page s. (Inl err, s))\<rparr>"

definition failing_writes :: "error \<Rightarrow> store Management" where
  "failing_writes err =
     store_api\<lparr>api_Update := (\<lambda>ident c s. (Some err, s)),
               api_Delete := (\<lambda>ident s. (Some err, s))\<rparr>"

text \<open>Example inputs: one connection with a duplicated member, and a resource for it.\<close>

definition demo_connection :: Connection where
  "demo_connection =
     \<lparr>conn_ID = Some ''con_1'', conn_Name = Some ''Username-Password'',
      conn_Strategy = Some ''auth0'', conn_EnabledClients = Some [''a'', ''m'', ''b'', ''m'']\<rparr>"

definition demo_store :: store where
  "demo_store = [(''con_1'', demo_connection)]"

definition demo_data :: ResourceData where
  "demo_data = \<lparr>d_Id = ''cc-1'', d_connection_id = ''con_1'', d_client_id = ''m'',
                d_name = [], d_strategy = []\<rparr>"

definition demo_world :: "store world" where
  "demo_world = \<lparr>remote = demo_store, trace = []\<rparr>"


text \<open>Example inputs for the sweeper: two pages, and a delete that fails for one ID.\<close>

definition sweep_page0 :: ConnectionList where
  "sweep_page0 =
     \<lparr>list_Start = 0, list_Limit = 2, list_Total = 4,
      list_Connections =
        [\<lparr>conn_ID = Some ''con_1'', conn_Name = Some ''Test-a'',
          conn_Strategy = None, conn_EnabledClients = None\<rparr>,
         \<lparr>conn_ID = Some ''con_2'', conn_Name = Some ''production'',
          conn_Strategy = None, conn_EnabledClients = None\<rparr>]\<rparr>"

definition sweep_page1 :: ConnectionList where
  "sweep_page1 =
     \<lparr>list_Start = 2, list_Limit = 2, list_Total = 4,
      list_Connections =
        [\<lparr>conn_ID = Some ''con_3'', conn_Name = Some ''Acceptance-Test-b'',
          conn_Strategy = None, conn_EnabledClients = None\<rparr>,
         \<lparr>conn_ID = Some ''con_4'', conn_Name = Some ''Test-c'',
          conn_Strategy = None, conn_EnabledClients = None\<rparr>]\<rparr>"

definition sweep_api :: "unit Management" where
  "sweep_api =
     \<lparr>api_Read = (\<lambda>ident r. (Inl notFound, r)),
      api_Update = (\<lambda>ident c r. (Some notFound, r)),
      api_List = (\<lambda>page r. (if page = 0 then Inr sweep_page0
                              else if page = 1 then Inr sweep_page1
                              else Inl notFound, r)),
      api_Delete = (\<lambda>ident r. (if ident = ''con_3'' then Some (OtherError ''busy'') else None, r))\<rparr>"

section \<open>Facts about the scans, the model's plumbing and the store\<close>

lemma scanFound_foldl:
  "foldl (\<lambda>found enabledClientID. if enabledClientID = clientID then True else found) b xs
     = (b \<or> clientID \<in> set xs)"
  by (induction xs arbitrary: b) auto

lemma scanFound_iff: "scanFound clientID xs = (clientID \<in> set xs)"
  by (simp add: scanFound_def scanFound_foldl)

lemma withoutClient_foldl:
  "foldl (\<lambda>enabledClients enabledClientID.
            if enabledClientID = clientID then enabledClients
            else enabledClients @ [enabledClientID]) acc xs
     = acc @ filter (\<lambda>x. x \<noteq> clientID) xs"
  by (induction xs arbitrary: acc) auto

lemma withoutClient_filter: "withoutClient clientID xs = filter (\<lambda>x. x \<noteq> clientID) xs"
  by (simp add: withoutClient_def withoutClient_foldl)

lemmas io_defs = Connection_Read_def Connection_Update_def Lock_def Unlock_def emit_def

lemmas demo_defs = demo_connection_def demo_store_def demo_data_def demo_world_def

lemmas store_defs = store_api_def store_Read_def store_Update_def failing_reads_def
  failing_writes_def notFound_def StatusNotFound_def patch_def

lemmas getter_defs = GetID_def GetName_def GetStrategy_def GetEnabledClients_def
  EnabledClientsOnly_def SetId_def

lemma readConnectionClient_cases:
  "readConnectionClient api data w =
     (case api_Read api (d_connection_id data) (remote w) of
        (Inl err, r1) \<Rightarrow>
          (if isNotFound err then (None, SetId [] data,
                w\<lparr>remote := r1, trace := trace w @ [ConnectionRead (d_connection_id data)]\<rparr>)
           else (Some err, data,
                w\<lparr>remote := r1, trace := trace w @ [ConnectionRead (d_connection_id data)]\<rparr>))
      | (Inr c, r1) \<Rightarrow>
          (if d_client_id data \<in> set (GetEnabledClients c)
           then (None, data\<lparr>d_name := GetName c, d_strategy := GetStrategy c\<rparr>,
                w\<lparr>remote := r1, trace := trace w @ [ConnectionRead (d_connection_id data)]\<rparr>)
           else (None, SetId [] data,
                w\<lparr>remote := r1, trace := trace w @ [ConnectionRead (d_connection_id data)]\<rparr>)))"
  by (simp add: readConnectionClient_def io_defs scanFound_iff Let_def
        split: prod.splits sum.splits)

lemma store_api_simps:
  "api_Read store_api = store_Read" "api_Update store_api = store_Update"
  "api_List store_api = store_List" "api_Delete store_api = store_Delete"
  by (simp_all add: store_api_def)

lemma store_Read_Some: "map_of s p = Some c \<Longrightarrow> store_Read p s = (Inr c, s)"
  by (simp add: store_Read_def)

lemma store_Read_None: "map_of s p = None \<Longrightarrow> store_Read p s = (Inl notFound, s)"
  by (simp add: store_Read_def)

lemma store_Update_Some:
  "map_of s p = Some old \<Longrightarrow> store_Update p c s = (None, AList.update p (patch old c) s)"
  by (simp add: store_Update_def)

lemma map_of_update_same: "map_of (AList.update p v s) p = Some v"
  by (simp add: AList.update_conv')

lemma GetEnabledClients_patch:
  "GetEnabledClients (patch old (EnabledClientsOnly xs)) = xs"
  by (simp add: GetEnabledClients_def patch_def EnabledClientsOnly_def)

lemma createConnectionClient_store_missing:
  assumes "map_of (remote w) (d_connection_id data) = None"
  shows "fst (createConnectionClient store_api uid data w) = Some notFound"
  using assms
  by (simp add: createConnectionClient_def io_defs Let_def store_api_simps store_Read_None)

lemma createConnectionClient_store_present:
  assumes "map_of (remote w) (d_connection_id data) = Some old"
  shows "createConnectionClient store_api uid data w =
           (None,
            (SetId uid data)
              \<lparr>d_name := GetName (patch old (EnabledClientsOnly
                                     (GetEnabledClients old @ [d_client_id data]))),
               d_strategy := GetStrategy (patch old (EnabledClientsOnly
                                     (GetEnabledClients old @ [d_client_id data])))\<rparr>,
            w\<lparr>remote := AList.update (d_connection_id data)
                          (patch old (EnabledClientsOnly
                             (GetEnabledClients old @ [d_client_id data])))
                          (remote w),
              trace := trace w @ [MutexLock (d_connection_id data),
                                  ConnectionRead (d_connection_id data),
                                  ConnectionUpdate (d_connection_id data)
                                    (EnabledClientsOnly
                                       (GetEnabledClients old @ [d_client_id data])),
                                  ConnectionRead (d_connection_id data),
                                  MutexUnlock (d_connection_id data)]\<rparr>)"
  using assms
  by (simp add: createConnectionClient_def readConnectionClient_cases io_defs Let_def
        store_api_simps store_Read_Some store_Update_Some map_of_update_same
        GetEnabledClients_patch SetId_def)

lemma demo_lookup: "map_of (remote demo_world) (d_connection_id demo_data) = Some demo_connection"
  by (simp add: demo_defs)

section \<open>Establishing a membership\<close>

text \<open>
  C2. Whenever the fetch of the parent succeeds, the establish operation issues, right
  after taking the lock and fetching, one update whose list is the fetched list with the
  member ID appended at the end: no membership test is made first, the fetched entries
  keep their places, and a member that was already in the list occurs once more in the
  list that is written.
\<close>

theorem establish_appends:
  assumes "api_Read api (d_connection_id data) (remote w) = (Inr connection, r1)"
  shows "prefix (trace w @ [MutexLock (d_connection_id data),
                           ConnectionRead (d_connection_id data),
                           ConnectionUpdate (d_connection_id data)
                             (EnabledClientsOnly
                                (GetEnabledClients connection @ [d_client_id data]))])
           (trace (snd (snd (createConnectionClient api uid data w))))
         \<and> count_list (GetEnabledClients connection @ [d_client_id data]) (d_client_id data)
             = Suc (count_list (GetEnabledClients connection) (d_client_id data))
         \<and> take (length (GetEnabledClients connection))
              (GetEnabledClients connection @ [d_client_id data]) = GetEnabledClients connection"
  using assms
  by (simp add: createConnectionClient_def readConnectionClient_cases io_defs Let_def
        split: prod.splits sum.splits option.splits)

theorem establish_appends_witness:
  "api_Read store_api (d_connection_id demo_data) (remote demo_world)
     = (Inr demo_connection, demo_store)
   \<and> GetEnabledClients demo_connection = [''a'', ''m'', ''b'', ''m'']
   \<and> prefix [MutexLock ''con_1'', ConnectionRead ''con_1'',
              ConnectionUpdate ''con_1'' (EnabledClientsOnly [''a'', ''m'', ''b'', ''m'', ''m''])]
        (trace (snd (snd (createConnectionClient store_api ''cc-2'' demo_data demo_world))))"
proof -
  have h: "api_Read store_api (d_connection_id demo_data) (remote demo_world)
             = (Inr demo_connection, demo_store)"
    by (simp add: demo_defs store_defs)
  from establish_appends [OF h, of "''cc-2''"] h show ?thesis
    by (simp add: demo_defs getter_defs)
qed

text \<open>
  C5. Whenever the fetch of the parent fails, with not-found or with any other error, the
  establish operation returns that error to the caller, leaves the resource data as it
  was, and makes no update call: the only calls are the lock, the fetch and the unlock.
\<close>

theorem establish_fetch_failure:
  assumes "api_Read api (d_connection_id data) (remote w) = (Inl err, r1)"
  shows "createConnectionClient api uid data w =
           (Some err, data,
            w\<lparr>remote := r1,
              trace := trace w @ [MutexLock (d_connection_id data),
                                  ConnectionRead (d_connection_id data),
                                  MutexUnlock (d_connection_id data)]\<rparr>)"
  using assms by (simp add: createConnectionClient_def io_defs Let_def)

theorem establish_fetch_failure_witness:
  "api_Read store_api (d_connection_id (demo_data\<lparr>d_connection_id := ''con_404''\<rparr>))
       (remote demo_world) = (Inl notFound, demo_store)
   \<and> isNotFound notFound
   \<and> createConnectionClient store_api ''cc-2'' (demo_data\<lparr>d_connection_id := ''con_404''\<rparr>)
        demo_world =
       (Some notFound, demo_data\<lparr>d_connection_id := ''con_404''\<rparr>,
        demo_world\<lparr>trace := [MutexLock ''con_404'', ConnectionRead ''con_404'',
                              MutexUnlock ''con_404'']\<rparr>)"
proof -
  have h: "api_Read store_api (d_connection_id (demo_data\<lparr>d_connection_id := ''con_404''\<rparr>))
       (remote demo_world) = (Inl notFound, demo_store)"
    by (simp add: demo_defs store_defs)
  from establish_fetch_failure [OF h, of "''cc-2''"] h show ?thesis
    by (simp add: demo_defs notFound_def StatusNotFound_def)
qed

text \<open>
  C8, as the code has it. When the fetch and the write of an establish operation succeed,
  the calls are, in this order: lock, fetch, update, confirmation fetch, unlock. The
  unlock is deferred, so the lock covers the fetch, the modification, the write-back and
  also the read-confirmation pass; nothing runs on the parent outside the lock.
\<close>

theorem establish_lock_scope:
  assumes "api_Read api (d_connection_id data) (remote w) = (Inr connection, r1)"
      and "api_Update api (d_connection_id data)
             (EnabledClientsOnly (GetEnabledClients connection @ [d_client_id data])) r1
             = (None, r2)"
  shows "(let p = d_connection_id data;
              write = ConnectionUpdate p
                        (EnabledClientsOnly (GetEnabledClients connection @ [d_client_id data]));
              calls = drop (length (trace w))
                        (trace (snd (snd (createConnectionClient api uid data w))))
          in calls = [MutexLock p, ConnectionRead p, write, ConnectionRead p, MutexUnlock p]
             \<and> calls_under_lock p False calls = [ConnectionRead p, write, ConnectionRead p]
             \<and> calls_outside_lock p False calls = [])"
  using assms
  by (simp add: createConnectionClient_def readConnectionClient_cases io_defs Let_def SetId_def
        split: prod.splits sum.splits)

theorem establish_lock_scope_witness:
  "api_Read store_api (d_connection_id demo_data) (remote demo_world)
     = (Inr demo_connection, demo_store)
   \<and> fst (api_Update store_api (d_connection_id demo_data)
            (EnabledClientsOnly (GetEnabledClients demo_connection @ [d_client_id demo_data]))
            demo_store) = None
   \<and> trace (snd (snd (createConnectionClient store_api ''cc-2'' demo_data demo_world))) =
       [MutexLock ''con_1'', ConnectionRead ''con_1'',
        ConnectionUpdate ''con_1'' (EnabledClientsOnly [''a'', ''m'', ''b'', ''m'', ''m'']),
        ConnectionRead ''con_1'', MutexUnlock ''con_1'']"
proof -
  have h1: "api_Read store_api (d_connection_id demo_data) (remote demo_world)
             = (Inr demo_connection, demo_store)"
    by (simp add: demo_defs store_defs)
  have h2: "api_Update store_api (d_connection_id demo_data)
              (EnabledClientsOnly (GetEnabledClients demo_connection @ [d_client_id demo_data]))
              demo_store
            = (None, AList.update ''con_1''
                 (patch demo_connection (EnabledClientsOnly [''a'', ''m'', ''b'', ''m'', ''m'']))
                 demo_store)"
    by (simp add: demo_defs store_api_def store_Update_def getter_defs)
  from establish_lock_scope [OF h1 h2, of "''cc-2''"] h1 h2 show ?thesis
    by (simp add: Let_def demo_defs getter_defs)
qed

text \<open>
  C8, as the claim states it, fails: in a successful establish run against the example
  store the confirmation fetch is made while the lock is held, and no call at all is made
  after the unlock.
\<close>

theorem establish_lock_scope_counterexample:
  "fst (createConnectionClient store_api ''cc-2'' demo_data demo_world) = None
   \<and> calls_outside_lock ''con_1'' False
        (trace (snd (snd (createConnectionClient store_api ''cc-2'' demo_data demo_world)))) = []
   \<and> calls_under_lock ''con_1'' False
        (trace (snd (snd (createConnectionClient store_api ''cc-2'' demo_data demo_world)))) =
       [ConnectionRead ''con_1'',
        ConnectionUpdate ''con_1'' (EnabledClientsOnly [''a'', ''m'', ''b'', ''m'', ''m'']),
        ConnectionRead ''con_1'']"
  by (simp add: createConnectionClient_store_present [OF demo_lookup])
     (simp add: demo_defs getter_defs)

section \<open>Observing a membership\<close>

text \<open>
  C6. The observe operation makes one fetch and no other call. If the fetch answers
  not-found, it returns no error and clears the resource ID. If the fetch fails otherwise,
  it returns that error and leaves the resource data alone. If the fetch succeeds and the
  member ID is not in the fetched list, it returns no error and clears the resource ID.
  If the member ID is in the list, it returns no error, keeps the resource ID and stores
  the parent's name and strategy.
\<close>

theorem observe_outcomes:
  "(api_Read api (d_connection_id data) (remote w) = (Inl err, r1) \<and> isNotFound err \<longrightarrow>
      readConnectionClient api data w =
        (None, SetId [] data,
         w\<lparr>remote := r1, trace := trace w @ [ConnectionRead (d_connection_id data)]\<rparr>)) \<and>
   (api_Read api (d_connection_id data) (remote w) = (Inl err, r1) \<and> \<not> isNotFound err \<longrightarrow>
      readConnectionClient api data w =
        (Some err, data,
         w\<lparr>remote := r1, trace := trace w @ [ConnectionRead (d_connection_id data)]\<rparr>)) \<and>
   (api_Read api (d_connection_id data) (remote w) = (Inr connection, r1) \<and>
      d_client_id data \<notin> set (GetEnabledClients connection) \<longrightarrow>
      readConnectionClient api data w =
        (None, SetId [] data,
         w\<lparr>remote := r1, trace := trace w @ [ConnectionRead (d_connection_id data)]\<rparr>)) \<and>
   (api_Read api (d_connection_id data) (remote w) = (Inr connection, r1) \<and>
      d_client_id data \<in> set (GetEnabledClients connection) \<longrightarrow>
      readConnectionClient api data w =
        (None, data\<lparr>d_name := GetName connection, d_strategy := GetStrategy connection\<rparr>,
         w\<lparr>remote := r1, trace := trace w @ [ConnectionRead (d_connection_id data)]\<rparr>))"
  by (simp add: readConnectionClient_cases)

theorem observe_outcomes_witness:
  "readConnectionClient store_api (demo_data\<lparr>d_connection_id := ''con_404''\<rparr>) demo_world =
     (None, SetId [] (demo_data\<lparr>d_connection_id := ''con_404''\<rparr>),
      demo_world\<lparr>trace := [ConnectionRead ''con_404'']\<rparr>)
   \<and> readConnectionClient (failing_reads (OtherError ''timeout'')) demo_data demo_world =
     (Some (OtherError ''timeout''), demo_data,
      demo_world\<lparr>trace := [ConnectionRead ''con_1'']\<rparr>)
   \<and> readConnectionClient store_api (demo_data\<lparr>d_client_id := ''z''\<rparr>) demo_world =
     (None, SetId [] (demo_data\<lparr>d_client_id := ''z''\<rparr>),
      demo_world\<lparr>trace := [ConnectionRead ''con_1'']\<rparr>)
   \<and> readConnectionClient store_api demo_data demo_world =
     (None, demo_data\<lparr>d_name := ''Username-Password'', d_strategy := ''auth0''\<rparr>,
      demo_world\<lparr>trace := [ConnectionRead ''con_1'']\<rparr>)"
  using
    observe_outcomes [of store_api "demo_data\<lparr>d_connection_id := ''con_404''\<rparr>" demo_world
       notFound demo_store demo_connection]
    observe_outcomes [of "failing_reads (OtherError ''timeout'')" demo_data demo_world
       "OtherError ''timeout''" demo_store demo_connection]
    observe_outcomes [of store_api "demo_data\<lparr>d_client_id := ''z''\<rparr>" demo_world
       notFound demo_store demo_connection]
    observe_outcomes [of store_api demo_data demo_world notFound demo_store demo_connection]
  by (simp add: demo_defs store_defs getter_defs)

text \<open>
  C7. Against the system of record, when an establish operation for parent \<open>p\<close> and
  member \<open>m\<close> returns without error, the remote list of \<open>p\<close> contains \<open>m\<close>, the resource
  carries the new ID, and an observe operation run next on the resulting resource data
  and remote state returns without error and leaves the resource data as it is: the ID is
  kept, so the membership is reported present.
\<close>

theorem establish_then_observe:
  assumes "createConnectionClient store_api uid data w = (None, data1, w1)"
  shows "readConnectionClient store_api data1 w1 =
           (None, data1, w1\<lparr>trace := trace w1 @ [ConnectionRead (d_connection_id data)]\<rparr>)
         \<and> d_Id data1 = uid
         \<and> (\<exists>c. map_of (remote w1) (d_connection_id data) = Some c
                \<and> d_client_id data \<in> set (GetEnabledClients c))"
proof (cases "map_of (remote w) (d_connection_id data)")
  case None
  from createConnectionClient_store_missing [OF None, of uid] assms show ?thesis by simp
next
  case (Some old)
  let ?new = "patch old (EnabledClientsOnly (GetEnabledClients old @ [d_client_id data]))"
  from createConnectionClient_store_present [OF Some, of uid] assms
  have d1: "data1 = (SetId uid data)\<lparr>d_name := GetName ?new, d_strategy := GetStrategy ?new\<rparr>"
    and w1: "remote w1 = AList.update (d_connection_id data) ?new (remote w)"
    by auto
  have stored: "map_of (remote w1) (d_connection_id data) = Some ?new"
    by (simp add: w1 map_of_update_same)
  have mem: "d_client_id data \<in> set (GetEnabledClients ?new)"
    by (simp add: GetEnabledClients_patch)
  have ids: "d_connection_id data1 = d_connection_id data" "d_client_id data1 = d_client_id data"
    by (simp_all add: d1 SetId_def)
  have "readConnectionClient store_api data1 w1 =
          (None, data1\<lparr>d_name := GetName ?new, d_strategy := GetStrategy ?new\<rparr>,
           w1\<lparr>remote := remote w1, trace := trace w1 @ [ConnectionRead (d_connection_id data)]\<rparr>)"
    using stored mem
    by (simp add: readConnectionClient_cases ids store_api_simps store_Read_Some)
  moreover have "data1\<lparr>d_name := GetName ?new, d_strategy := GetStrategy ?new\<rparr> = data1"
    by (simp add: d1)
  moreover have "d_Id data1 = uid" by (simp add: d1 SetId_def)
  ultimately show ?thesis using stored mem by simp
qed

theorem establish_then_observe_witness:
  "fst (createConnectionClient store_api ''cc-2'' (demo_data\<lparr>d_client_id := ''z''\<rparr>)
          demo_world) = None
   \<and> (let data1 = fst (snd (createConnectionClient store_api ''cc-2''
                              (demo_data\<lparr>d_client_id := ''z''\<rparr>) demo_world));
          w1 = snd (snd (createConnectionClient store_api ''cc-2''
                           (demo_data\<lparr>d_client_id := ''z''\<rparr>) demo_world))
      in readConnectionClient store_api data1 w1 =
           (None, data1, w1\<lparr>trace := trace w1 @ [ConnectionRead ''con_1'']\<rparr>)
         \<and> d_Id data1 = ''cc-2''
         \<and> d_name data1 = ''Username-Password'')"
proof -
  have look: "map_of (remote demo_world) (d_connection_id (demo_data\<lparr>d_client_id := ''z''\<rparr>))
                = Some demo_connection"
    by (simp add: demo_defs)
  have run: "createConnectionClient store_api ''cc-2'' (demo_data\<lparr>d_client_id := ''z''\<rparr>)
               demo_world =
             (None,
              \<lparr>d_Id = ''cc-2'', d_connection_id = ''con_1'', d_client_id = ''z'',
               d_name = ''Username-Password'', d_strategy = ''auth0''\<rparr>,
              \<lparr>remote = [(''con_1'',
                           demo_connection\<lparr>conn_EnabledClients :=
                                             Some [''a'', ''m'', ''b'', ''m'', ''z'']\<rparr>)],
               trace = [MutexLock ''con_1'', ConnectionRead ''con_1'',
                        ConnectionUpdate ''con_1''
                          (EnabledClientsOnly [''a'', ''m'', ''b'', ''m'', ''z'']),
                        ConnectionRead ''con_1'', MutexUnlock ''con_1'']\<rparr>)"
    by (simp add: createConnectionClient_store_present [OF look])
       (simp add: demo_defs getter_defs patch_def)
  have same: "d_connection_id (demo_data\<lparr>d_client_id := ''z''\<rparr>) = ''con_1''"
    by (simp add: demo_defs)
  from establish_then_observe [OF run] show ?thesis
    unfolding run same by (simp add: Let_def)
qed

section \<open>Removing a membership\<close>

text \<open>
  C3. Whenever the fetch of the parent succeeds, the remove operation issues exactly one
  update, and its list is the fetched list without any entry equal to the member ID: every
  occurrence is dropped and the other entries keep their relative order. The calls are
  lock, fetch, update, unlock.
\<close>

theorem remove_filters_all:
  assumes "api_Read api (d_connection_id data) (remote w) = (Inr connection, r1)"
  shows "trace (snd (snd (deleteConnectionClient api data w))) =
           trace w @ [MutexLock (d_connection_id data),
                      ConnectionRead (d_connection_id data),
                      ConnectionUpdate (d_connection_id data)
                        (EnabledClientsOnly
                           (filter (\<lambda>x. x \<noteq> d_client_id data) (GetEnabledClients connection))),
                      MutexUnlock (d_connection_id data)]"
  using assms
  by (simp add: deleteConnectionClient_def withoutClient_filter io_defs Let_def
        split: prod.splits sum.splits option.splits)

theorem remove_filters_all_witness:
  "api_Read store_api (d_connection_id demo_data) (remote demo_world)
     = (Inr demo_connection, demo_store)
   \<and> GetEnabledClients demo_connection = [''a'', ''m'', ''b'', ''m'']
   \<and> trace (snd (snd (deleteConnectionClient store_api demo_data demo_world))) =
       [MutexLock ''con_1'', ConnectionRead ''con_1'',
        ConnectionUpdate ''con_1'' (EnabledClientsOnly [''a'', ''b'']),
        MutexUnlock ''con_1'']"
proof -
  have h: "api_Read store_api (d_connection_id demo_data) (remote demo_world)
             = (Inr demo_connection, demo_store)"
    by (simp add: demo_defs store_defs)
  from remove_filters_all [OF h] h show ?thesis
    by (simp add: demo_defs getter_defs)
qed

text \<open>
  C4. If the fetch of the parent answers not-found, the remove operation returns no error,
  clears the resource ID and makes no update call. If the fetch fails otherwise, that
  error is returned and the resource data is left alone. If the fetch succeeds and the
  write-back of the filtered list fails, a not-found failure is turned into success with
  the resource ID cleared, and any other failure is returned to the caller.
\<close>

theorem remove_outcomes:
  "(api_Read api (d_connection_id data) (remote w) = (Inl err, r1) \<longrightarrow>
      deleteConnectionClient api data w =
        (if isNotFound err then None else Some err,
         if isNotFound err then SetId [] data else data,
         w\<lparr>remote := r1,
           trace := trace w @ [MutexLock (d_connection_id data),
                               ConnectionRead (d_connection_id data),
                               MutexUnlock (d_connection_id data)]\<rparr>)) \<and>
   (api_Read api (d_connection_id data) (remote w) = (Inr connection, r1) \<and>
    api_Update api (d_connection_id data)
      (EnabledClientsOnly (filter (\<lambda>x. x \<noteq> d_client_id data) (GetEnabledClients connection))) r1
      = (Some err, r2) \<longrightarrow>
      deleteConnectionClient api data w =
        (if isNotFound err then None else Some err,
         if isNotFound err then SetId [] data else data,
         w\<lparr>remote := r2,
           trace := trace w @ [MutexLock (d_connection_id data),
                               ConnectionRead (d_connection_id data),
                               ConnectionUpdate (d_connection_id data)
                                 (EnabledClientsOnly
                                    (filter (\<lambda>x. x \<noteq> d_client_id data)
                                       (GetEnabledClients connection))),
                               MutexUnlock (d_connection_id data)]\<rparr>))"
  by (simp add: deleteConnectionClient_def withoutClient_filter io_defs Let_def)

theorem remove_outcomes_witness:
  "deleteConnectionClient store_api (demo_data\<lparr>d_connection_id := ''con_404''\<rparr>) demo_world =
     (None, SetId [] (demo_data\<lparr>d_connection_id := ''con_404''\<rparr>),
      demo_world\<lparr>trace := [MutexLock ''con_404'', ConnectionRead ''con_404'',
                            MutexUnlock ''con_404'']\<rparr>)
   \<and> deleteConnectionClient (failing_reads (OtherError ''timeout'')) demo_data demo_world =
     (Some (OtherError ''timeout''), demo_data,
      demo_world\<lparr>trace := [MutexLock ''con_1'', ConnectionRead ''con_1'',
                            MutexUnlock ''con_1'']\<rparr>)
   \<and> deleteConnectionClient (failing_writes notFound) demo_data demo_world =
     (None, SetId [] demo_data,
      demo_world\<lparr>trace := [MutexLock ''con_1'', ConnectionRead ''con_1'',
                            ConnectionUpdate ''con_1'' (EnabledClientsOnly [''a'', ''b'']),
                            MutexUnlock ''con_1'']\<rparr>)
   \<and> deleteConnectionClient (failing_writes (OtherError ''timeout'')) demo_data demo_world =
     (Some (OtherError ''timeout''), demo_data,
      demo_world\<lparr>trace := [MutexLock ''con_1'', ConnectionRead ''con_1'',
                            ConnectionUpdate ''con_1'' (EnabledClientsOnly [''a'', ''b'']),
                            MutexUnlock ''con_1'']\<rparr>)"
  using
    remove_outcomes [of store_api "demo_data\<lparr>d_connection_id := ''con_404''\<rparr>" demo_world
       notFound demo_store demo_connection demo_store]
    remove_outcomes [of "failing_reads (OtherError ''timeout'')" demo_data demo_world
       "OtherError ''timeout''" demo_store demo_connection demo_store]
    remove_outcomes [of "failing_writes notFound" demo_data demo_world
       notFound demo_store demo_connection demo_store]
    remove_outcomes [of "failing_writes (OtherError ''timeout'')" demo_data demo_world
       "OtherError ''timeout''" demo_store demo_connection demo_store]
  by (simp add: demo_defs store_defs getter_defs)

section \<open>Facts about the schema upgrade\<close>








section \<open>Facts about the sweeper's iteration\<close>

lemma errors_of_simps:
  "errors_of [] = []"
  "errors_of (a # answers) = (case a of None \<Rightarrow> [] | Some e \<Rightarrow> [e]) @ errors_of answers"
  "errors_of (xs @ ys) = errors_of xs @ errors_of ys"
  by (simp_all add: errors_of_def split: option.splits)

lemma errs_of_Append:
  "errs_of (multierror_Append result err)
     = errs_of result @ (case err of None \<Rightarrow> [] | Some e \<Rightarrow> [e])"
  by (cases err; cases result) (simp_all add: multierror_Append_def errs_of_def)

lemma ErrorOrNil_combined: "ErrorOrNil result = combined (errs_of result)"
  by (cases result) (simp_all add: ErrorOrNil_def combined_def errs_of_def)

lemma sweepPage_calls:
  "\<exists>answers. length answers
                = length (map GetID (filter (\<lambda>c. Contains (GetName c) ''Test'') conns))
       \<and> trace (snd (sweepPage api conns result w))
           = trace w @ delete_calls
                         (map GetID (filter (\<lambda>c. Contains (GetName c) ''Test'') conns)) answers
       \<and> errs_of (fst (sweepPage api conns result w)) = errs_of result @ errors_of answers"
proof (induction conns arbitrary: result w)
  case Nil
  show ?case by (simp add: delete_calls_def errors_of_simps)
next
  case (Cons c rest)
  show ?case
  proof (cases "Contains (GetName c) ''Test''")
    case False
    with Cons.IH [of result w] show ?thesis by simp
  next
    case True
    obtain err r1 where del: "api_Delete api (GetID c) (remote w) = (err, r1)"
      by (cases "api_Delete api (GetID c) (remote w)") auto
    let ?w1 = "w\<lparr>remote := r1, trace := trace w @ [ConnectionDeleted (GetID c) err]\<rparr>"
    let ?ids = "map GetID (filter (\<lambda>c. Contains (GetName c) ''Test'') rest)"
    have step: "sweepPage api (c # rest) result w
                  = sweepPage api rest (multierror_Append result err) ?w1"
      using True del by (simp add: Connection_Delete_def emit_def)
    from Cons.IH [of "multierror_Append result err" ?w1]
    obtain answers where
      le: "length answers = length ?ids"
      and tr: "trace (snd (sweepPage api rest (multierror_Append result err) ?w1))
                 = trace ?w1 @ delete_calls ?ids answers"
      and er: "errs_of (fst (sweepPage api rest (multierror_Append result err) ?w1))
                 = errs_of (multierror_Append result err) @ errors_of answers"
      by blast
    have ids: "map GetID (filter (\<lambda>c. Contains (GetName c) ''Test'') (c # rest))
                 = GetID c # ?ids"
      using True by simp
    have "length (err # answers) = length (GetID c # ?ids)"
      using le by simp
    moreover have "trace (snd (sweepPage api (c # rest) result w))
                     = trace w @ delete_calls (GetID c # ?ids) (err # answers)"
      unfolding step tr by (simp add: delete_calls_def)
    moreover have "errs_of (fst (sweepPage api (c # rest) result w))
                     = errs_of result @ errors_of (err # answers)"
      unfolding step er by (simp add: errs_of_Append errors_of_simps)
    ultimately show ?thesis unfolding ids by blast
  qed
qed

lemma sweepLoop_rounds:
  "\<exists>rounds. trace (snd (sweepLoop api fuel page result w)) = trace w @ sweep_calls page rounds
       \<and> list_all answered rounds
       \<and> loop_post fuel (errs_of result) (fst (sweepLoop api fuel page result w)) rounds"
proof (induction fuel arbitrary: page result w)
  case 0
  have "trace (snd (sweepLoop api 0 page result w)) = trace w @ sweep_calls page []"
    and "list_all answered []"
    and "loop_post 0 (errs_of result) (fst (sweepLoop api 0 page result w)) []"
    by (simp_all add: loop_post_def)
  then show ?case by blast
next
  case (Suc fuel)
  obtain res r1 where li: "api_List api page (remote w) = (res, r1)"
    by (cases "api_List api page (remote w)") auto
  let ?w1 = "w\<lparr>remote := r1, trace := trace w @ [ConnectionListed page res]\<rparr>"
  have call: "Connection_List api page w = (res, ?w1)"
    using li by (simp add: Connection_List_def emit_def)
  show ?case
  proof (cases res)
    case (Inl err)
    let ?rounds = "[(Inl err, [])] :: ((error + ConnectionList) \<times> error option list) list"
    have run: "sweepLoop api (Suc fuel) page result w = (Done (Some (Plain err)), ?w1)"
      using call Inl by simp
    have "trace (snd (sweepLoop api (Suc fuel) page result w)) = trace w @ sweep_calls page ?rounds"
      unfolding run using Inl by (simp add: page_calls_def delete_calls_def ids_of_def)
    moreover have "list_all answered ?rounds"
      by (simp add: answered_def ids_of_def)
    moreover have "loop_post (Suc fuel) (errs_of result)
                     (fst (sweepLoop api (Suc fuel) page result w)) ?rounds"
      unfolding run by (simp add: loop_post_def)
    ultimately show ?thesis by blast
  next
    case (Inr l)
    obtain result' w2 where pg: "sweepPage api (list_Connections l) result ?w1 = (result', w2)"
      by (cases "sweepPage api (list_Connections l) result ?w1") auto
    from sweepPage_calls [of "list_Connections l" api result ?w1] pg
    obtain answers where
      le: "length answers = length (targets l)"
      and tr: "trace w2 = trace ?w1 @ delete_calls (targets l) answers"
      and er: "errs_of result' = errs_of result @ errors_of answers"
      by (auto simp: targets_def)
    have tr2: "trace w2 = trace w @ page_calls page (Inr l, answers)"
      using tr Inr by (simp add: page_calls_def ids_of_def)
    have ans: "answered (Inr l, answers)"
      using le by (simp add: answered_def ids_of_def)
    show ?thesis
    proof (cases "HasNext l")
      case False
      let ?rounds = "[(Inr l, answers)]"
      have run: "sweepLoop api (Suc fuel) page result w = (Done (ErrorOrNil result'), w2)"
        using call Inr pg False by simp
      have "trace (snd (sweepLoop api (Suc fuel) page result w))
              = trace w @ sweep_calls page ?rounds"
        unfolding run by (simp add: tr2)
      moreover have "list_all answered ?rounds"
        using ans by simp
      moreover have "loop_post (Suc fuel) (errs_of result)
                       (fst (sweepLoop api (Suc fuel) page result w)) ?rounds"
        unfolding run using False by (simp add: loop_post_def ErrorOrNil_combined er)
      ultimately show ?thesis by blast
    next
      case True
      have run: "sweepLoop api (Suc fuel) page result w = sweepLoop api fuel (Suc page) result' w2"
        using call Inr pg True by simp
      from Suc.IH [of "Suc page" result' w2]
      obtain rounds where
        t: "trace (snd (sweepLoop api fuel (Suc page) result' w2))
              = trace w2 @ sweep_calls (Suc page) rounds"
        and a: "list_all answered rounds"
        and p: "loop_post fuel (errs_of result') (fst (sweepLoop api fuel (Suc page) result' w2))
                  rounds"
        by blast
      let ?rounds = "(Inr l, answers) # rounds"
      have "trace (snd (sweepLoop api (Suc fuel) page result w))
              = trace w @ sweep_calls page ?rounds"
        unfolding run t by (simp add: tr2)
      moreover have "list_all answered ?rounds"
        using ans a by simp
      moreover have "loop_post (Suc fuel) (errs_of result)
                       (fst (sweepLoop api (Suc fuel) page result w)) ?rounds"
        unfolding run using p True
        by (cases "fst (sweepLoop api fuel (Suc page) result' w2)")
           (auto simp: loop_post_def continues_def er errors_of_simps split: sum.splits)
      ultimately show ?thesis by blast
    qed
  qed
qed

lemma sweepLoop_more_fuel:
  "sweepLoop api fuel page result w = (Done e, w')
     \<Longrightarrow> sweepLoop api (fuel + k) page result w = (Done e, w')"
proof (induction fuel arbitrary: page result w)
  case 0
  then show ?case by simp
next
  case (Suc fuel)
  then show ?case
    by (auto split: prod.splits sum.splits if_splits)
qed

section \<open>The schema upgrade\<close>




section \<open>The sweeper\<close>

text \<open>
  C10. The calls of a sweep are, page by page from page 0, one list call followed by one
  delete call for each connection of the listing whose name contains \<open>Test\<close>, in order,
  whatever the earlier deletions answered. Every listing before the last succeeded and
  reported a next page. If the sweep returned, the last listing either failed, and then
  its error is the result and no call follows it, or reported no next page, and then the
  result is nil when no deletion failed and otherwise the multierror of all failed
  deletions in order. If the sweep is still running after \<open>fuel\<close> pages, each of them
  listed successfully and reported a next page.
\<close>

theorem sweep_calls_and_result:
  assumes "Connections_F (Inr api) fuel w = (out, w')"
  shows "\<exists>rounds.
           trace w' = trace w @ sweep_calls 0 rounds
         \<and> (\<forall>round \<in> set rounds. length (snd round) = length (ids_of (fst round)))
         \<and> (case out of
              OutOfFuel \<Rightarrow>
                length rounds = fuel \<and> (\<forall>round \<in> set rounds. continues (fst round))
            | Done e \<Rightarrow>
                rounds \<noteq> [] \<and> (\<forall>round \<in> set (butlast rounds). continues (fst round)) \<and>
                (case fst (last rounds) of
                   Inl err \<Rightarrow> e = Some (Plain err)
                 | Inr l \<Rightarrow> \<not> HasNext l \<and>
                             e = combined (errors_of (concat (map snd rounds)))))"
proof -
  have run: "sweepLoop api fuel 0 None w = (out, w')"
    using assms by (simp add: Connections_F_def)
  from sweepLoop_rounds [of api fuel 0 None w] obtain rounds where
    t: "trace w' = trace w @ sweep_calls 0 rounds"
    and a: "list_all answered rounds"
    and p: "loop_post fuel (errs_of None) out rounds"
    unfolding run by auto
  have "\<forall>round \<in> set rounds. length (snd round) = length (ids_of (fst round))"
    using a by (simp add: list_all_iff answered_def)
  moreover have "(case out of
              OutOfFuel \<Rightarrow>
                length rounds = fuel \<and> (\<forall>round \<in> set rounds. continues (fst round))
            | Done e \<Rightarrow>
                rounds \<noteq> [] \<and> (\<forall>round \<in> set (butlast rounds). continues (fst round)) \<and>
                (case fst (last rounds) of
                   Inl err \<Rightarrow> e = Some (Plain err)
                 | Inr l \<Rightarrow> \<not> HasNext l \<and>
                             e = combined (errors_of (concat (map snd rounds)))))"
    using p by (auto simp: loop_post_def errs_of_def list_all_iff split: fueled.splits sum.splits)
  ultimately show ?thesis using t by blast
qed

theorem sweep_calls_and_result_witness:
  "Connections_F (Inr sweep_api) 3 \<lparr>remote = (), trace = []\<rparr> =
     (Done (Some (Multierror [OtherError ''busy''])),
      \<lparr>remote = (),
       trace = [ConnectionListed 0 (Inr sweep_page0),
                ConnectionDeleted ''con_1'' None,
                ConnectionListed 1 (Inr sweep_page1),
                ConnectionDeleted ''con_3'' (Some (OtherError ''busy'')),
                ConnectionDeleted ''con_4'' None]\<rparr>)"
proof -
  have run: "Connections_F (Inr sweep_api) 3 \<lparr>remote = (), trace = []\<rparr> =
     (Done (Some (Multierror [OtherError ''busy''])),
      \<lparr>remote = (),
       trace = [ConnectionListed 0 (Inr sweep_page0),
                ConnectionDeleted ''con_1'' None,
                ConnectionListed 1 (Inr sweep_page1),
                ConnectionDeleted ''con_3'' (Some (OtherError ''busy'')),
                ConnectionDeleted ''con_4'' None]\<rparr>)"
    by (simp add: numeral_3_eq_3 Connections_F_def Connection_List_def Connection_Delete_def
          emit_def sweep_api_def sweep_page0_def sweep_page1_def HasNext_def Contains_def
          getter_defs multierror_Append_def ErrorOrNil_def sublist_code)
  from sweep_calls_and_result [OF run] show ?thesis by (simp add: run)
qed

end
